theory Spec2Isabelle
  imports Complex_Main
begin

section \<open>Data model\<close>

text \<open>
  The two tables of the store, as \<^verbatim>\<open>utils/db.py\<close> reads them. A message row keeps the
  columns the queries and aggregations touch; \<^verbatim>\<open>model_used\<close>, \<^verbatim>\<open>sources_cited\<close> and the
  Slack columns are carried through untouched by every function below and are left out.
  The column \<^verbatim>\<open>id\<close> is called \<open>msg_id\<close>, the name \<^verbatim>\<open>get_daily_metrics\<close> gives it.
  \<^verbatim>\<open>created_at\<close> is a UTC instant in seconds; nullable columns are options; scores and
  latencies are exact reals.
\<close>

record message =
  msg_id :: nat
  created_at :: int
  question :: "string option"
  response :: "string option"
  response_time_ms :: "real option"

record evaluation =
  message_id :: nat
  faithfulness_score :: "real option"
  hallucination_detected :: bool
  capability_hallucination :: bool
  citation_accurate :: "bool option"
  question_type :: "string option"
  question_complexity :: "string option"
  is_high_risk_topic :: bool

record store =
  juju_messages :: "message list"
  juju_evaluations :: "evaluation list"

text \<open>
  A row of a merged frame: the message and, when the merge found one, the evaluation.
  A row with \<open>None\<close> has NaN in every evaluation column.
\<close>

type_synonym joined = "message \<times> evaluation option"

text \<open>Every \<^verbatim>\<open>.execute()\<close> is recorded by the table it queries, in the order issued.\<close>

datatype table = JujuMessages | JujuEvaluations

text \<open>A Python float that may be NaN (what pandas' \<^verbatim>\<open>mean\<close> gives for no values).\<close>

datatype pyfloat = NaN | Num real

section \<open>Query primitives\<close>

text \<open>\<^verbatim>\<open>.gte("created_at", start)\<close> and \<^verbatim>\<open>.lte("created_at", end)\<close>, each applied only when given.\<close>

definition gte_lte :: "int option \<Rightarrow> int option \<Rightarrow> message list \<Rightarrow> message list" where
  "gte_lte start_date end_date ms =
     filter (\<lambda>m. (case start_date of None \<Rightarrow> True | Some s \<Rightarrow> s \<le> created_at m) \<and>
                 (case end_date of None \<Rightarrow> True | Some e \<Rightarrow> created_at m \<le> e)) ms"

text \<open>
  \<^verbatim>\<open>.order("created_at", desc=True)\<close>: newest first. Rows with equal \<^verbatim>\<open>created_at\<close> keep
  their table order (the store leaves it open).
\<close>

definition order_desc :: "message list \<Rightarrow> message list" where
  "order_desc ms = sort_key (\<lambda>m. - created_at m) ms"

text \<open>\<^verbatim>\<open>.range(offset, offset + limit - 1)\<close>: the \<open>limit\<close> rows that follow the first \<open>offset\<close>.\<close>

definition range_rows :: "nat \<Rightarrow> nat \<Rightarrow> 'a list \<Rightarrow> 'a list" where
  "range_rows offset limit xs = take limit (drop offset xs)"

text \<open>\<^verbatim>\<open>.in_("id", message_ids)\<close> on messages and \<^verbatim>\<open>.in_("message_id", message_ids)\<close> on evaluations.\<close>

definition in_id :: "nat list \<Rightarrow> message list \<Rightarrow> message list" where
  "in_id ids ms = filter (\<lambda>m. msg_id m \<in> set ids) ms"

definition in_message_id :: "nat list \<Rightarrow> evaluation list \<Rightarrow> evaluation list" where
  "in_message_id ids es = filter (\<lambda>e. message_id e \<in> set ids) es"

section \<open>Merging\<close>

definition evals_of :: "message \<Rightarrow> evaluation list \<Rightarrow> evaluation list" where
  "evals_of m es = filter (\<lambda>e. message_id e = msg_id m) es"

text \<open>
  \<^verbatim>\<open>messages_df.merge(evals_df, left_on="id", right_on="message_id", how="left")\<close>:
  the left rows in their order, one row per matching evaluation, one row with no
  evaluation when none matches.
\<close>

definition merge_left :: "message list \<Rightarrow> evaluation list \<Rightarrow> joined list" where
  "merge_left ms es =
     concat (map (\<lambda>m. case evals_of m es of
                         [] \<Rightarrow> [(m, None)]
                       | e # es' \<Rightarrow> map (\<lambda>x. (m, Some x)) (e # es')) ms)"

text \<open>The same with \<^verbatim>\<open>how="inner"\<close>: a message without a matching evaluation gives no row.\<close>

definition merge_inner :: "message list \<Rightarrow> evaluation list \<Rightarrow> (message \<times> evaluation) list" where
  "merge_inner ms es = concat (map (\<lambda>m. map (\<lambda>x. (m, x)) (evals_of m es)) ms)"

section \<open>Flagged messages\<close>

text \<open>\<^verbatim>\<open>Series.fillna(1)\<close> on one cell.\<close>

definition fillna :: "real \<Rightarrow> real option \<Rightarrow> real" where
  "fillna d c = (case c of None \<Rightarrow> d | Some v \<Rightarrow> v)"

text \<open>
  The four disjuncts of the mask of \<^verbatim>\<open>get_flagged_messages\<close>, in the source's order. The
  third is the low-faithfulness rule:
  \<^verbatim>\<open>evals_df["faithfulness_score"].fillna(1) < faithfulness_threshold\<close>.
\<close>

definition low_faithfulness :: "real \<Rightarrow> evaluation \<Rightarrow> bool" where
  "low_faithfulness faithfulness_threshold e =
     (fillna 1 (faithfulness_score e) < faithfulness_threshold)"

definition flag_mask :: "real \<Rightarrow> evaluation \<Rightarrow> bool" where
  "flag_mask faithfulness_threshold e =
     (hallucination_detected e = True \<or>
      capability_hallucination e = True \<or>
      low_faithfulness faithfulness_threshold e \<or>
      citation_accurate e = Some False)"

text \<open>
  \<^verbatim>\<open>get_flagged_messages\<close>: all evaluations are fetched and filtered in memory; only when
  some evaluation is flagged are the messages with those ids fetched (date bounds,
  newest first, \<^verbatim>\<open>.limit(limit)\<close>) and inner-merged with the flagged evaluations.
\<close>

definition get_flagged_messages ::
  "store \<Rightarrow> nat \<Rightarrow> real \<Rightarrow> int option \<Rightarrow> int option \<Rightarrow>
     table list \<times> (message \<times> evaluation) list" where
  "get_flagged_messages db limit faithfulness_threshold start_date end_date =
     (let evals_df = juju_evaluations db in
      if evals_df = [] then ([JujuEvaluations], [])
      else
        let flagged_evals = filter (flag_mask faithfulness_threshold) evals_df in
        if flagged_evals = [] then ([JujuEvaluations], [])
        else
          let message_ids = map message_id flagged_evals;
              messages_df = take limit (order_desc (gte_lte start_date end_date
                              (in_id message_ids (juju_messages db))))
          in ([JujuEvaluations, JujuMessages],
              if messages_df = [] then [] else merge_inner messages_df flagged_evals))"

section \<open>The flagged-issues route\<close>

text \<open>
  What \<^verbatim>\<open>m.get("faithfulness_score")\<close> reads from a row of \<^verbatim>\<open>df.to_dict("records")\<close>:
  the number, NaN for a null score in a numeric column, or \<^verbatim>\<open>None\<close> when the column holds
  no number at all (a frame built from rows whose scores are all null keeps them as
  objects).
\<close>

datatype cell = PyNone | PyNaN | PyNum real

definition faithfulness_cell :: "store \<Rightarrow> evaluation \<Rightarrow> cell" where
  "faithfulness_cell db e =
     (case faithfulness_score e of
        Some v \<Rightarrow> PyNum v
      | None \<Rightarrow> if list_ex (\<lambda>x. faithfulness_score x \<noteq> None) (juju_evaluations db)
                then PyNaN else PyNone)"

text \<open>Python's \<^verbatim>\<open>c or 1\<close>: \<^verbatim>\<open>None\<close> and \<^verbatim>\<open>0.0\<close> are falsy, NaN is truthy.\<close>

definition or_one :: "cell \<Rightarrow> pyfloat" where
  "or_one c = (case c of PyNone \<Rightarrow> Num 1 | PyNaN \<Rightarrow> NaN
               | PyNum v \<Rightarrow> if v = 0 then Num 1 else Num v)"

text \<open>\<^verbatim>\<open>x < threshold\<close> on floats: every comparison with NaN is false.\<close>

definition float_less :: "pyfloat \<Rightarrow> real \<Rightarrow> bool" where
  "float_less x t = (case x of NaN \<Rightarrow> False | Num v \<Rightarrow> v < t)"

definition parse_date_range :: "int \<Rightarrow> string \<Rightarrow> int option \<times> int option" where
  "parse_date_range now range_str =
     (if range_str = ''7d'' then (Some (now - 7 * 86400), None)
      else if range_str = ''30d'' then (Some (now - 30 * 86400), None)
      else if range_str = ''90d'' then (Some (now - 90 * 86400), None)
      else (None, None))"

record flagged_context =
  flagged :: "(message \<times> evaluation) list"
  halluc_count :: nat
  cap_halluc_count :: nat
  low_faith_count :: nat
  bad_citation_count :: nat

text \<open>
  What the functions raise: the framework's answer to a request parameter outside its
  declared bounds, and \<^verbatim>\<open>re.error\<close> for a search text that is no pattern.
\<close>

datatype error = RequestValidationError | ReError

text \<open>
  \<^verbatim>\<open>flagged_page\<close> of \<^verbatim>\<open>main.py\<close>. The parameter is declared
  \<^verbatim>\<open>threshold: float = Query(0.7, ge=0, le=1)\<close>, so the framework answers a threshold
  outside the bounds with a validation error and the body does not run. The body's
  \<^verbatim>\<open>except Exception\<close> has no counterpart here: the modelled store does not fail.
\<close>

definition flagged_page ::
  "store \<Rightarrow> int \<Rightarrow> string \<Rightarrow> real \<Rightarrow> table list \<times> (error + flagged_context)" where
  "flagged_page db now range_str threshold =
     (if \<not> (0 \<le> threshold \<and> threshold \<le> 1) then ([], Inl RequestValidationError)
      else
        let (start_date, end_date) = parse_date_range now range_str;
            (io, df) = get_flagged_messages db 100 threshold start_date end_date
        in (io, Inr
             (if df \<noteq> [] then
                \<lparr>flagged = df,
                 halluc_count = length (filter (\<lambda>m. hallucination_detected (snd m)) df),
                 cap_halluc_count = length (filter (\<lambda>m. capability_hallucination (snd m)) df),
                 low_faith_count = length (filter
                   (\<lambda>m. float_less (or_one (faithfulness_cell db (snd m))) threshold) df),
                 bad_citation_count = length (filter
                   (\<lambda>m. citation_accurate (snd m) = Some False) df)\<rparr>
              else
                \<lparr>flagged = [], halluc_count = 0, cap_halluc_count = 0,
                 low_faith_count = 0, bad_citation_count = 0\<rparr>)))"

section \<open>Message browser\<close>

text \<open>Python's truth value of an optional string: \<^verbatim>\<open>None\<close> and \<^verbatim>\<open>""\<close> are falsy.\<close>

definition truthy_str :: "string option \<Rightarrow> bool" where
  "truthy_str s = (case s of None \<Rightarrow> False | Some t \<Rightarrow> t \<noteq> [])"

text \<open>
  \<^verbatim>\<open>Series.str.contains(search, case=False, na=False)\<close>. pandas first compiles the search
  text as a regular expression, ignoring case, and \<^verbatim>\<open>re.compile\<close> raises \<^verbatim>\<open>re.error\<close> on
  a text that is no pattern, such as \<^verbatim>\<open>(\<close>. The compiled pattern is then searched for in
  every non-null cell; a null cell never matches. The compiler is Python's own, so it is
  an argument \<open>re_compile\<close> of the functions that search: \<open>None\<close> is the raise, \<open>Some f\<close>
  the compiled pattern, \<open>f s\<close> telling whether it is found in \<open>s\<close>.
\<close>

definition contains_na :: "(string \<Rightarrow> bool) \<Rightarrow> string option \<Rightarrow> bool" where
  "contains_na f c = (case c of None \<Rightarrow> False | Some s \<Rightarrow> f s)"

text \<open>The mask on one message: the pattern is found in the question or in the response.\<close>

definition search_mask :: "(string \<Rightarrow> bool) \<Rightarrow> message \<Rightarrow> bool" where
  "search_mask f m = (contains_na f (question m) \<or> contains_na f (response m))"

text \<open>
  \<^verbatim>\<open>if search: df = df[mask]\<close> on rows that carry a message: nothing happens for a falsy
  search text; otherwise the text is compiled, which may raise, and the rows whose
  message matches are kept.
\<close>

definition search_rows ::
  "(string \<Rightarrow> (string \<Rightarrow> bool) option) \<Rightarrow> string option \<Rightarrow> ('r \<Rightarrow> message) \<Rightarrow> 'r list \<Rightarrow>
     error + 'r list" where
  "search_rows re_compile search msg_of rows =
     (case search of
        None \<Rightarrow> Inr rows
      | Some pat \<Rightarrow>
          if pat = [] then Inr rows
          else (case re_compile pat of
                  None \<Rightarrow> Inl ReError
                | Some f \<Rightarrow> Inr (filter (\<lambda>r. search_mask f (msg_of r)) rows)))"

text \<open>
  A compiler for the examples. A text of ASCII letters, digits and spaces compiles to
  its case-insensitive substring test, as in Python. Every other text is refused: so is
  \<^verbatim>\<open>(\<close> in Python, which accepts other texts with metacharacters; the examples use none.
\<close>

definition lower_char :: "char \<Rightarrow> char" where
  "lower_char c =
     (let n = (of_char c :: nat) in if 65 \<le> n \<and> n \<le> 90 then char_of (n + 32) else c)"

fun substring_of :: "string \<Rightarrow> string \<Rightarrow> bool" where
  "substring_of p [] = (p = [])"
| "substring_of p (c # cs) = (take (length p) (c # cs) = p \<or> substring_of p cs)"

definition icontains :: "string \<Rightarrow> string \<Rightarrow> bool" where
  "icontains pat s = substring_of (map lower_char pat) (map lower_char s)"

definition plain_char :: "char \<Rightarrow> bool" where
  "plain_char c =
     (let n = (of_char c :: nat)
      in n = 32 \<or> (48 \<le> n \<and> n \<le> 57) \<or> (65 \<le> n \<and> n \<le> 90) \<or> (97 \<le> n \<and> n \<le> 122))"

definition compile_plain :: "string \<Rightarrow> (string \<Rightarrow> bool) option" where
  "compile_plain pat = (if list_all plain_char pat then Some (icontains pat) else None)"

text \<open>The page query shared by \<^verbatim>\<open>get_messages\<close> and \<^verbatim>\<open>get_messages_with_evals\<close>.\<close>

definition fetch_page :: "store \<Rightarrow> nat \<Rightarrow> nat \<Rightarrow> int option \<Rightarrow> int option \<Rightarrow> message list" where
  "fetch_page db limit offset start_date end_date =
     range_rows offset limit (order_desc (gte_lte start_date end_date (juju_messages db)))"


text \<open>\<^verbatim>\<open>question_type and question_type != "All"\<close>, and the same for complexity.\<close>

definition filter_given :: "string option \<Rightarrow> bool" where
  "filter_given v = (truthy_str v \<and> v \<noteq> Some ''All'')"

text \<open>
  \<^verbatim>\<open>merged[col] == value\<close> on one row: a row without evaluation has NaN there and a null
  column value is \<^verbatim>\<open>None\<close>; neither equals a string.
\<close>

definition col_eq :: "(evaluation \<Rightarrow> string option) \<Rightarrow> string option \<Rightarrow> joined \<Rightarrow> bool" where
  "col_eq col v r = (case snd r of None \<Rightarrow> False | Some e \<Rightarrow> col e \<noteq> None \<and> col e = v)"

definition high_risk_row :: "joined \<Rightarrow> bool" where
  "high_risk_row r = (case snd r of None \<Rightarrow> False | Some e \<Rightarrow> is_high_risk_topic e = True)"

text \<open>
  \<^verbatim>\<open>get_messages_with_evals\<close>: an empty page and a page without any evaluation are
  returned at once; otherwise the page is merged with its evaluations, searched, and
  filtered by question type, complexity and high risk, in this order. A raise of the
  search ends the function.
\<close>

definition get_messages_with_evals ::
  "(string \<Rightarrow> (string \<Rightarrow> bool) option) \<Rightarrow> store \<Rightarrow> nat \<Rightarrow> nat \<Rightarrow> string option \<Rightarrow>
     int option \<Rightarrow> int option \<Rightarrow> string option \<Rightarrow> string option \<Rightarrow> bool \<Rightarrow>
     table list \<times> (error + joined list)" where
  "get_messages_with_evals re_compile db limit offset search start_date end_date
       qtype complexity high_risk_only =
     (let messages_df = fetch_page db limit offset start_date end_date in
      if messages_df = [] then ([JujuMessages], Inr [])
      else
        let message_ids = map msg_id messages_df;
            evals_df = in_message_id message_ids (juju_evaluations db) in
        if evals_df = []
        then ([JujuMessages, JujuEvaluations], Inr (map (\<lambda>m. (m, None)) messages_df))
        else
          let merged = merge_left messages_df evals_df in
          case search_rows re_compile search fst merged of
            Inl err \<Rightarrow> ([JujuMessages, JujuEvaluations], Inl err)
          | Inr merged \<Rightarrow>
              let merged = (if filter_given qtype
                            then filter (col_eq question_type qtype) merged else merged);
                  merged = (if filter_given complexity
                            then filter (col_eq question_complexity complexity) merged
                            else merged);
                  merged = (if high_risk_only then filter high_risk_row merged else merged)
              in ([JujuMessages, JujuEvaluations], Inr merged))"

section \<open>Metrics\<close>

text \<open>Python's truth value of a float (NaN is truthy) and \<^verbatim>\<open>x or 0\<close>.\<close>

definition truthy :: "pyfloat \<Rightarrow> bool" where
  "truthy x = (case x of NaN \<Rightarrow> True | Num v \<Rightarrow> v \<noteq> 0)"

definition or_zero :: "pyfloat \<Rightarrow> pyfloat" where
  "or_zero x = (if truthy x then x else Num 0)"

text \<open>
  \<^verbatim>\<open>round(x, n)\<close>. NaN stays NaN. Zero stays zero: \<^verbatim>\<open>x or 0\<close> hands the integer 0 to
  \<^verbatim>\<open>round\<close>, and \<^verbatim>\<open>round(0.0, n)\<close> is \<^verbatim>\<open>0.0\<close>. On every other value Python rounds the
  binary double to \<open>n\<close> decimals; doubles are not modelled here, so that rounding is an
  argument \<open>float_round\<close> of the functions that round.
\<close>

definition py_round :: "(real \<Rightarrow> nat \<Rightarrow> real) \<Rightarrow> pyfloat \<Rightarrow> nat \<Rightarrow> pyfloat" where
  "py_round float_round x n =
     (case x of NaN \<Rightarrow> NaN | Num v \<Rightarrow> if v = 0 then Num 0 else Num (float_round v n))"

text \<open>
  A rounding for the examples: of the exact value, ties to the even neighbour. It is
  not Python's on every double: \<^verbatim>\<open>round(0.5015, 3)\<close> is 0.501, the double lying below the
  tie, where the exact value rounds to 0.502.
\<close>

definition round_half_even :: "real \<Rightarrow> int" where
  "round_half_even x =
     (let f = \<lfloor>x\<rfloor>; d = x - of_int f in
      if d < 1 / 2 then f else if 1 / 2 < d then f + 1 else if even f then f else f + 1)"

definition exact_round :: "real \<Rightarrow> nat \<Rightarrow> real" where
  "exact_round v n = of_int (round_half_even (v * 10 ^ n)) / 10 ^ n"

text \<open>\<^verbatim>\<open>Series.mean()\<close>: the mean of the non-null cells, NaN when there is none.\<close>

definition non_null :: "'a option list \<Rightarrow> 'a list" where
  "non_null xs = concat (map (\<lambda>c. case c of None \<Rightarrow> [] | Some v \<Rightarrow> [v]) xs)"

definition series_mean :: "real option list \<Rightarrow> pyfloat" where
  "series_mean xs =
     (let vs = non_null xs in if vs = [] then NaN else Num (sum_list vs / of_nat (length vs)))"

text \<open>The UTC calendar date of an instant, as a day number.\<close>

definition date_of :: "int \<Rightarrow> int" where
  "date_of t = t div 86400"

record metrics_summary =
  total_messages :: nat
  avg_response_time_ms :: pyfloat
  avg_faithfulness :: pyfloat
  hallucination_rate :: pyfloat
  messages_today :: nat

text \<open>
  \<^verbatim>\<open>get_metrics_summary\<close>; \<open>now\<close> is \<^verbatim>\<open>datetime.utcnow()\<close>. Both queries name their
  columns or select all of them, so the \<^verbatim>\<open>in df.columns\<close> tests hold whenever the frame
  has a row.
\<close>

definition get_metrics_summary ::
  "(real \<Rightarrow> nat \<Rightarrow> real) \<Rightarrow> store \<Rightarrow> int \<Rightarrow> int option \<Rightarrow> int option \<Rightarrow>
     table list \<times> metrics_summary" where
  "get_metrics_summary float_round db now start_date end_date =
     (let messages_df = gte_lte start_date end_date (juju_messages db) in
      if messages_df = [] then
        ([JujuMessages],
         \<lparr>total_messages = 0, avg_response_time_ms = Num 0, avg_faithfulness = Num 0,
          hallucination_rate = Num 0, messages_today = 0\<rparr>)
      else
        let message_ids = map msg_id messages_df;
            evals_df = in_message_id message_ids (juju_evaluations db);
            avg_response_time = series_mean (map response_time_ms messages_df);
            today = date_of now;
            (avg_faith, halluc_rate) =
              (if evals_df \<noteq> [] then
                 (series_mean (map faithfulness_score evals_df),
                  of_nat (length (filter hallucination_detected evals_df)) /
                    of_nat (length evals_df))
               else (Num 0, 0))
        in ([JujuMessages, JujuEvaluations],
            \<lparr>total_messages = length messages_df,
             avg_response_time_ms = py_round float_round (or_zero avg_response_time) 0,
             avg_faithfulness = py_round float_round (or_zero avg_faith) 3,
             hallucination_rate = py_round float_round (Num (halluc_rate * 100)) 1,
             messages_today =
               length (filter (\<lambda>m. date_of (created_at m) = today) messages_df)\<rparr>))"

section \<open>Daily series\<close>

text \<open>
  A row of the frame that \<^verbatim>\<open>get_daily_metrics\<close> groups: the message columns and the two
  evaluation columns the aggregation reads (null after a left merge without a match).
\<close>

record daily_row =
  row_date :: int
  row_msg_id :: nat
  row_response_time_ms :: "real option"
  row_faithfulness_score :: "real option"
  row_hallucination_detected :: "bool option"

record day_bucket =
  date :: int
  message_count :: nat
  avg_response_time :: pyfloat
  day_avg_faithfulness :: pyfloat
  day_hallucination_rate :: real

definition merged_row :: "joined \<Rightarrow> daily_row" where
  "merged_row r =
     \<lparr>row_date = date_of (created_at (fst r)), row_msg_id = msg_id (fst r),
      row_response_time_ms = response_time_ms (fst r),
      row_faithfulness_score = (case snd r of None \<Rightarrow> None | Some e \<Rightarrow> faithfulness_score e),
      row_hallucination_detected =
        (case snd r of None \<Rightarrow> None | Some e \<Rightarrow> Some (hallucination_detected e))\<rparr>"

text \<open>
  The branch without evaluations: \<^verbatim>\<open>merged["faithfulness_score"] = None\<close> and
  \<^verbatim>\<open>merged["hallucination_detected"] = False\<close>.
\<close>

definition unevaluated_row :: "message \<Rightarrow> daily_row" where
  "unevaluated_row m =
     \<lparr>row_date = date_of (created_at m), row_msg_id = msg_id m,
      row_response_time_ms = response_time_ms m,
      row_faithfulness_score = None, row_hallucination_detected = Some False\<rparr>"

text \<open>
  The aggregation of one group. The last column is the source's
  \<^verbatim>\<open>lambda x: x.sum() / len(x) * 100 if len(x) > 0 else 0\<close>: the sum skips nulls and counts
  the true cells, \<^verbatim>\<open>len(x)\<close> is the number of rows of the group.
\<close>

definition agg_group :: "int \<Rightarrow> daily_row list \<Rightarrow> day_bucket" where
  "agg_group d x =
     \<lparr>date = d,
      message_count = length x,
      avg_response_time = series_mean (map row_response_time_ms x),
      day_avg_faithfulness = series_mean (map row_faithfulness_score x),
      day_hallucination_rate =
        (if length x > 0
         then of_nat (length (filter (\<lambda>r. row_hallucination_detected r = Some True) x)) /
                of_nat (length x) * 100
         else 0)\<rparr>"

text \<open>
  The messages \<^verbatim>\<open>get_daily_metrics\<close> fetches: from \<^verbatim>\<open>start_date\<close>, or from \<open>days\<close> days
  before \<open>now\<close> when none is given, up to \<^verbatim>\<open>end_date\<close> when one is given.
\<close>

definition daily_messages :: "store \<Rightarrow> int \<Rightarrow> int \<Rightarrow> int option \<Rightarrow> int option \<Rightarrow> message list" where
  "daily_messages db now days start_date end_date =
     (let start = (case start_date of None \<Rightarrow> now - days * 86400 | Some s \<Rightarrow> s)
      in gte_lte (Some start) end_date (juju_messages db))"

text \<open>
  \<^verbatim>\<open>get_daily_metrics\<close>: \<^verbatim>\<open>groupby("date")\<close> gives one group per distinct date, in
  ascending order; \<^verbatim>\<open>sort_values("date")\<close> sorts the buckets once more.
\<close>

definition get_daily_metrics ::
  "store \<Rightarrow> int \<Rightarrow> int \<Rightarrow> int option \<Rightarrow> int option \<Rightarrow> table list \<times> day_bucket list" where
  "get_daily_metrics db now days start_date end_date =
     (let messages_df = daily_messages db now days start_date end_date in
      if messages_df = [] then ([JujuMessages], [])
      else
        let message_ids = map msg_id messages_df;
            evals_df = in_message_id message_ids (juju_evaluations db);
            merged = (if evals_df \<noteq> [] then map merged_row (merge_left messages_df evals_df)
                      else map unevaluated_row messages_df);
            daily = map (\<lambda>d. agg_group d (filter (\<lambda>r. row_date r = d) merged))
                      (sort (remdups (map row_date merged)))
        in ([JujuMessages, JujuEvaluations], sort_key date daily))"

section \<open>Example stores\<close>

definition m1 :: message where
  "m1 = \<lparr>msg_id = 1, created_at = 1000, question = Some ''Refund policy'',
          response = Some ''See billing'', response_time_ms = Some 200\<rparr>"

definition m2 :: message where
  "m2 = \<lparr>msg_id = 2, created_at = 2000, question = Some ''Export data'',
          response = Some ''Yes'', response_time_ms = Some 400\<rparr>"

text \<open>An evaluation of message 1 with nothing wrong and no faithfulness score.\<close>

definition e_null :: evaluation where
  "e_null = \<lparr>message_id = 1, faithfulness_score = None, hallucination_detected = False,
              capability_hallucination = False, citation_accurate = Some True,
              question_type = Some ''how_to'', question_complexity = Some ''simple'',
              is_high_risk_topic = False\<rparr>"

text \<open>The same with a detected hallucination and score 9/10, and with score 0.\<close>

definition e_halluc :: evaluation where
  "e_halluc = e_null\<lparr>faithfulness_score := Some (9 / 10), hallucination_detected := True\<rparr>"

definition e_zero :: evaluation where
  "e_zero = e_null\<lparr>faithfulness_score := Some 0\<rparr>"

definition db_null_score :: store where
  "db_null_score = \<lparr>juju_messages = [m1], juju_evaluations = [e_null]\<rparr>"

definition db_half_evaluated :: store where
  "db_half_evaluated = \<lparr>juju_messages = [m1, m2], juju_evaluations = [e_halluc]\<rparr>"

definition db_no_evals :: store where
  "db_no_evals = \<lparr>juju_messages = [m1, m2], juju_evaluations = []\<rparr>"

definition db_zero_score :: store where
  "db_zero_score = \<lparr>juju_messages = [m1], juju_evaluations = [e_zero]\<rparr>"

section \<open>Unfolding the queries and the examples\<close>

lemmas example_defs = m1_def m2_def e_null_def e_halluc_def e_zero_def db_null_score_def
  db_half_evaluated_def db_no_evals_def db_zero_score_def

lemmas query_defs = gte_lte_def order_desc_def range_rows_def in_id_def in_message_id_def
  evals_of_def merge_left_def merge_inner_def fetch_page_def

section \<open>Properties of the flag rules\<close>

lemma merge_inner_evals:
  "(m, x) \<in> set (merge_inner ms es) \<Longrightarrow> x \<in> set es \<and> message_id x = msg_id m \<and> m \<in> set ms"
  by (auto simp: merge_inner_def evals_of_def)

lemma get_flagged_messages_rows:
  assumes "r \<in> set (snd (get_flagged_messages db limit t s e))"
  shows "snd r \<in> set (juju_evaluations db) \<and> message_id (snd r) = msg_id (fst r) \<and>
         flag_mask t (snd r)"
proof -
  obtain m x where r: "r = (m, x)" by (cases r)
  let ?fl = "filter (flag_mask t) (juju_evaluations db)"
  from assms r obtain ms where "(m, x) \<in> set (merge_inner ms ?fl)"
    by (auto simp: get_flagged_messages_def Let_def split: if_splits)
  then have "x \<in> set ?fl" "message_id x = msg_id m"
    by (auto dest: merge_inner_evals)
  with r show ?thesis by auto
qed

text \<open>
  C4, as amended. A null score is filled with 1 before the comparison, so the
  low-faithfulness rule fires on it exactly when the threshold exceeds 1; for every
  threshold up to 1 (all of the unit interval, and everything below it) it never fires.
\<close>

theorem null_score_low_faithfulness:
  "faithfulness_score e = None \<Longrightarrow>
     low_faithfulness t e = (1 < t) \<and> (t \<le> 1 \<longrightarrow> \<not> low_faithfulness t e)"
  by (simp add: low_faithfulness_def fillna_def)

theorem null_score_low_faithfulness_witness:
  "faithfulness_score e_null = None \<and> low_faithfulness (7 / 10) e_null = (1 < (7 / 10 :: real)) \<and>
   \<not> low_faithfulness (7 / 10) e_null"
  using null_score_low_faithfulness [of e_null "7 / 10"]
  by (simp add: e_null_def)

text \<open>
  C4, as stated, fails above 1: with threshold 3/2 the rule fires on an evaluation
  whose score is null.
\<close>

theorem null_score_flagged_above_one:
  "faithfulness_score e_null = None \<and> low_faithfulness (3 / 2) e_null"
  by (simp add: low_faithfulness_def fillna_def e_null_def)

text \<open>
  C5. A message that no evaluation row points to is in no row of the flagged result,
  for every limit, threshold and date range.
\<close>

theorem no_evaluation_never_flagged:
  "\<forall>ev \<in> set (juju_evaluations db). message_id ev \<noteq> msg_id m \<Longrightarrow>
     \<forall>r \<in> set (snd (get_flagged_messages db limit t s e)). msg_id (fst r) \<noteq> msg_id m \<and> fst r \<noteq> m"
  using get_flagged_messages_rows by fastforce

theorem no_evaluation_never_flagged_witness:
  "message_id e_halluc \<noteq> msg_id m2 \<and>
   snd (get_flagged_messages db_half_evaluated 100 (7 / 10) None None) = [(m1, e_halluc)] \<and>
   m2 \<notin> fst ` set (snd (get_flagged_messages db_half_evaluated 100 (7 / 10) None None))"
proof -
  have h: "\<forall>ev \<in> set (juju_evaluations db_half_evaluated). message_id ev \<noteq> msg_id m2"
    by (simp add: example_defs)
  have r: "snd (get_flagged_messages db_half_evaluated 100 (7 / 10) None None) = [(m1, e_halluc)]"
    by (simp add: get_flagged_messages_def flag_mask_def query_defs example_defs)
  have "message_id e_halluc \<noteq> msg_id m2"
    by (simp add: example_defs)
  moreover from no_evaluation_never_flagged [OF h, of 100 "7 / 10" None None]
  have "m2 \<notin> fst ` set (snd (get_flagged_messages db_half_evaluated 100 (7 / 10) None None))"
    by (auto simp: image_iff)
  ultimately show ?thesis using r by simp
qed

text \<open>
  C7, as stated, fails on \<^verbatim>\<open>get_flagged_messages\<close>: called with threshold 3/2 it rejects
  nothing, queries both tables and returns a row.
\<close>

theorem get_flagged_messages_queries_out_of_range:
  "get_flagged_messages db_null_score 100 (3 / 2) None None =
     ([JujuEvaluations, JujuMessages], [(m1, e_null)])"
  by (simp add: get_flagged_messages_def flag_mask_def low_faithfulness_def fillna_def
      query_defs example_defs)

text \<open>
  C7, as amended. The bounds are checked where the route declares its parameter: a
  threshold outside the unit interval is answered with a validation error and no query
  is issued. \<^verbatim>\<open>get_flagged_messages\<close> itself checks nothing: for every threshold its first
  step is the query of the evaluations table.
\<close>

theorem threshold_validated_at_route:
  "(t < 0 \<or> 1 < t \<longrightarrow> flagged_page db now range_str t = ([], Inl RequestValidationError)) \<and>
   (\<exists>io. fst (get_flagged_messages db limit t s e) = JujuEvaluations # io)"
  by (auto simp: flagged_page_def get_flagged_messages_def Let_def)

theorem threshold_validated_at_route_witness:
  "((3 / 2 :: real) < 0 \<or> 1 < (3 / 2 :: real)) \<and>
   flagged_page db_null_score 5000 ''30d'' (3 / 2) = ([], Inl RequestValidationError) \<and>
   (\<exists>io. fst (get_flagged_messages db_null_score 100 (3 / 2) None None) = JujuEvaluations # io)"
  using threshold_validated_at_route [of "3 / 2" db_null_score 5000 "''30d''" 100 None None]
  by simp

text \<open>
  C6 at a store whose only evaluation has score 0, threshold 7/10: the record is
  flagged (0 is below the threshold) and returned, one returned record has a non-null
  score below the threshold, and \<^verbatim>\<open>low_faith_count\<close> is 0, since \<^verbatim>\<open>0.0 or 1\<close> is 1.
\<close>

theorem low_faith_count_misses_zero_score:
  "snd (flagged_page db_zero_score now ''all'' (7 / 10)) =
     Inr \<lparr>flagged = [(m1, e_zero)], halluc_count = 0, cap_halluc_count = 0,
          low_faith_count = 0, bad_citation_count = 0\<rparr> \<and>
   length (filter (\<lambda>r. case faithfulness_score (snd r) of None \<Rightarrow> False | Some v \<Rightarrow> v < 7 / 10)
     [(m1, e_zero)]) = 1"
  by (simp add: flagged_page_def parse_date_range_def get_flagged_messages_def flag_mask_def
      low_faithfulness_def fillna_def faithfulness_cell_def or_one_def float_less_def
      query_defs example_defs)

section \<open>Properties of the message browser\<close>

text \<open>
  C3 at a store without evaluations: the early return hands back the page as fetched,
  so a question-type filter keeps both messages although neither is evaluated.
\<close>

theorem question_type_filter_skipped_without_evaluations:
  "snd (get_messages_with_evals re_compile db_no_evals 25 0 None None None
          (Some ''how_to'') None False) = Inr [(m2, None), (m1, None)]"
  by (simp add: get_messages_with_evals_def query_defs example_defs)

text \<open>
  With at least one evaluation fetched for the page, a question-type or complexity
  filter keeps evaluated rows only.
\<close>

lemma filters_drop_unevaluated_rows:
  assumes "in_message_id (map msg_id (fetch_page db limit offset s e)) (juju_evaluations db) \<noteq> []"
    and "filter_given qt \<or> filter_given cx"
    and "snd (get_messages_with_evals re_compile db limit offset search s e qt cx hr) = Inr rows"
    and "r \<in> set rows"
  shows "snd r \<noteq> None"
proof -
  have ne: "fetch_page db limit offset s e \<noteq> []"
    using assms(1) by (auto simp: in_message_id_def)
  from assms(3,4) have "col_eq question_type qt r \<or> col_eq question_complexity cx r"
    using assms(1,2) ne
    by (auto simp: get_messages_with_evals_def Let_def split: if_splits sum.splits)
  then show ?thesis
    by (auto simp: col_eq_def split: option.splits)
qed

lemma evals_of_in_message_id:
  "m \<in> set ms \<Longrightarrow> evals_of m (in_message_id (map msg_id ms) es) = evals_of m es"
  by (induction es) (auto simp: evals_of_def in_message_id_def)

lemma merge_left_in_message_id:
  "merge_left ms (in_message_id (map msg_id ms) es) = merge_left ms es"
  unfolding merge_left_def
  by (rule arg_cong [where f = concat], rule map_cong) (simp_all add: evals_of_in_message_id)

lemma evals_of_empty:
  "in_message_id (map msg_id ms) es = [] \<Longrightarrow> m \<in> set ms \<Longrightarrow> evals_of m es = []"
  by (auto simp: evals_of_def in_message_id_def filter_empty_conv)

lemma merge_left_no_evals:
  assumes "in_message_id (map msg_id ms) es = []"
  shows "merge_left ms es = map (\<lambda>m. (m, None)) ms"
proof -
  have "map (\<lambda>m. case evals_of m es of [] \<Rightarrow> [(m, None)]
                | e # es' \<Rightarrow> map (\<lambda>x. (m, Some x)) (e # es')) ms = map (\<lambda>m. [(m, None)]) ms"
    by (rule map_cong) (simp_all add: evals_of_empty [OF assms])
  then have "merge_left ms es = concat (map (\<lambda>m. [(m, None)]) ms)"
    by (simp only: merge_left_def)
  then show ?thesis
    by simp
qed

lemma unfiltered_result:
  "snd (get_messages_with_evals re_compile db limit offset None s e None None False) =
     Inr (merge_left (fetch_page db limit offset s e) (juju_evaluations db))"
proof (cases "fetch_page db limit offset s e = []")
  case True
  then show ?thesis
    by (simp add: get_messages_with_evals_def Let_def merge_left_def)
next
  case False
  show ?thesis
  proof (cases "in_message_id (map msg_id (fetch_page db limit offset s e)) (juju_evaluations db) = []")
    case True
    with False show ?thesis
      by (simp add: get_messages_with_evals_def Let_def merge_left_no_evals)
  next
    case ne: False
    with False show ?thesis
      by (simp add: get_messages_with_evals_def Let_def search_rows_def truthy_str_def
          filter_given_def merge_left_in_message_id)
  qed
qed

lemma remdups_adj_replicate_append:
  "0 < n \<Longrightarrow> remdups_adj (replicate n m @ ys) = remdups_adj (m # ys)"
proof (induction n)
  case 0
  then show ?case by simp
next
  case (Suc n)
  then show ?case by (cases n) auto
qed

lemma map_fst_rows:
  assumes "\<forall>r \<in> set rs. fst r = m"
  shows "map fst rs = replicate (length rs) m"
  using assms by (induction rs) auto

lemma left_rows:
  "(case evals_of m es of [] \<Rightarrow> [(m, None)] | e # es' \<Rightarrow> map (\<lambda>x. (m, Some x)) (e # es')) \<noteq> [] \<and>
   (\<forall>r \<in> set (case evals_of m es of [] \<Rightarrow> [(m, None)]
                | e # es' \<Rightarrow> map (\<lambda>x. (m, Some x)) (e # es')). fst r = m)"
  by (cases "evals_of m es") auto

lemma merge_left_Cons:
  "merge_left (m # ms) es =
     (case evals_of m es of [] \<Rightarrow> [(m, None)] | e # es' \<Rightarrow> map (\<lambda>x. (m, Some x)) (e # es')) @
     merge_left ms es"
  by (simp add: merge_left_def)

lemma map_fst_merge_left_Cons:
  "\<exists>n. map fst (merge_left (m # ms) es) = replicate (Suc n) m @ map fst (merge_left ms es)"
proof -
  let ?rs = "case evals_of m es of [] \<Rightarrow> [(m, None)] | e # es' \<Rightarrow> map (\<lambda>x. (m, Some x)) (e # es')"
  have "map fst ?rs = replicate (length ?rs) m"
    using left_rows [of m es] by (intro map_fst_rows) blast
  moreover obtain n where "length ?rs = Suc n"
    using left_rows [of m es] by (cases ?rs) auto
  ultimately have "map fst (merge_left (m # ms) es) = replicate (Suc n) m @ map fst (merge_left ms es)"
    by (simp only: merge_left_Cons map_append)
  then show ?thesis ..
qed

lemma remdups_adj_merge_left: "remdups_adj (map fst (merge_left ms es)) = remdups_adj ms"
proof (induction ms)
  case Nil
  then show ?case by (simp add: merge_left_def)
next
  case (Cons m ms)
  from map_fst_merge_left_Cons [of m ms es] obtain n where
    n: "map fst (merge_left (m # ms) es) = replicate (Suc n) m @ map fst (merge_left ms es)" ..
  have "remdups_adj (map fst (merge_left (m # ms) es)) =
        remdups_adj (m # map fst (merge_left ms es))"
    by (simp only: n remdups_adj_replicate_append [OF zero_less_Suc])
  also have "\<dots> = remdups_adj (m # ms)"
    using Cons.IH by (simp add: remdups_adj_Cons)
  finally show ?case .
qed

lemma set_fst_merge_left: "fst ` set (merge_left ms es) = set ms"
proof (induction ms)
  case Nil
  then show ?case by (simp add: merge_left_def)
next
  case (Cons m ms)
  from map_fst_merge_left_Cons [of m ms es] obtain n where
    n: "map fst (merge_left (m # ms) es) = replicate (Suc n) m @ map fst (merge_left ms es)" ..
  have "fst ` set (merge_left (m # ms) es) = set (map fst (merge_left (m # ms) es))"
    by simp
  also have "\<dots> = insert m (fst ` set (merge_left ms es))"
    by (simp only: n) auto
  finally show ?case using Cons.IH by simp
qed

lemma sorted_merge_left:
  "sorted (map f ms) \<Longrightarrow> sorted (map (\<lambda>r. f (fst r)) (merge_left ms es))"
proof (induction ms)
  case Nil
  then show ?case by (simp add: merge_left_def)
next
  case (Cons m ms)
  from map_fst_merge_left_Cons [of m ms es] obtain n where
    n: "map fst (merge_left (m # ms) es) = replicate (Suc n) m @ map fst (merge_left ms es)" ..
  have "map (\<lambda>r. f (fst r)) (merge_left (m # ms) es) = map f (map fst (merge_left (m # ms) es))"
    by (simp add: comp_def)
  also have "\<dots> = replicate (Suc n) (f m) @ map (\<lambda>r. f (fst r)) (merge_left ms es)"
    by (simp only: n) (simp add: comp_def)
  finally have eq: "map (\<lambda>r. f (fst r)) (merge_left (m # ms) es) =
      replicate (Suc n) (f m) @ map (\<lambda>r. f (fst r)) (merge_left ms es)" .
  have "\<forall>y \<in> set (merge_left ms es). f m \<le> f (fst y)"
    using Cons.prems set_fst_merge_left [of ms es] by auto
  moreover have "sorted (map (\<lambda>r. f (fst r)) (merge_left ms es))"
    using Cons by simp
  ultimately show ?case
    by (simp only: eq) (auto simp: sorted_append)
qed

lemma fetch_page_sorted: "sorted (map (\<lambda>m. - created_at m) (fetch_page db limit offset s e))"
proof -
  have "sorted (map (\<lambda>m. - created_at m) (order_desc (gte_lte s e (juju_messages db))))"
    by (simp add: order_desc_def)
  then have "sorted (take limit (drop offset
      (map (\<lambda>m. - created_at m) (order_desc (gte_lte s e (juju_messages db))))))"
    by (intro sorted_wrt_take sorted_wrt_drop)
  then show ?thesis
    by (simp add: fetch_page_def range_rows_def take_map drop_map)
qed

lemma fetch_page_distinct:
  assumes "distinct (map msg_id (juju_messages db))"
  shows "distinct (fetch_page db limit offset s e)"
proof -
  from assms have "distinct (juju_messages db)"
    by (rule distinct_map [THEN iffD1, THEN conjunct1])
  then show ?thesis
    by (simp add: fetch_page_def range_rows_def order_desc_def gte_lte_def)
qed

text \<open>
  C8. With no search text, no question type, no complexity and the high-risk switch off,
  \<^verbatim>\<open>get_messages_with_evals\<close> returns the left join of the fetched page with the
  evaluations, nothing filtered out: collapsing the rows of one message gives back the
  page, message by message in its order, and the rows are newest first. Message ids are
  unique in the store.
\<close>

theorem identity_filter:
  assumes "distinct (map msg_id (juju_messages db))"
  shows "snd (get_messages_with_evals re_compile db limit offset None s e None None False) =
           Inr (merge_left (fetch_page db limit offset s e) (juju_evaluations db)) \<and>
         remdups_adj (map fst (merge_left (fetch_page db limit offset s e) (juju_evaluations db))) =
           fetch_page db limit offset s e \<and>
         sorted (map (\<lambda>r. - created_at (fst r))
           (merge_left (fetch_page db limit offset s e) (juju_evaluations db)))"
proof -
  have "remdups_adj (fetch_page db limit offset s e) = fetch_page db limit offset s e"
    using fetch_page_distinct [OF assms] by (rule remdups_adj_distinct)
  then show ?thesis
    by (simp only: unfiltered_result remdups_adj_merge_left
        sorted_merge_left [OF fetch_page_sorted] simp_thms)
qed

theorem identity_filter_witness:
  "distinct (map msg_id (juju_messages db_half_evaluated)) \<and>
   snd (get_messages_with_evals compile_plain db_half_evaluated 25 0 None None None None None False) =
     Inr [(m2, None), (m1, Some e_halluc)] \<and>
   remdups_adj (map fst [(m2, None :: evaluation option), (m1, Some e_halluc)]) = [m2, m1]"
proof -
  have h: "distinct (map msg_id (juju_messages db_half_evaluated))"
    by (simp add: example_defs)
  have page: "fetch_page db_half_evaluated 25 0 None None = [m2, m1]"
    by (simp add: query_defs example_defs)
  have rows: "merge_left [m2, m1] (juju_evaluations db_half_evaluated) =
      [(m2, None), (m1, Some e_halluc)]"
    by (simp add: query_defs example_defs)
  note t = identity_filter [OF h, of compile_plain 25 0 None None]
  from t [THEN conjunct1] have "snd (get_messages_with_evals compile_plain db_half_evaluated 25 0
      None None None None None False) = Inr [(m2, None), (m1, Some e_halluc)]"
    by (simp only: page rows)
  moreover from t [THEN conjunct2, THEN conjunct1]
  have "remdups_adj (map fst [(m2, None :: evaluation option), (m1, Some e_halluc)]) = [m2, m1]"
    by (simp only: page rows)
  ultimately show ?thesis using h by (intro conjI)
qed









text \<open>
  The early return of \<^verbatim>\<open>get_messages_with_evals\<close> comes before its search as well: without
  evaluations the fetched page is returned although its message does not match.
\<close>

lemma search_skipped_without_evaluations:
  "snd (get_messages_with_evals compile_plain db_no_evals 1 0 (Some ''REFUND'')
          None None None None False) = Inr [(m2, None)] \<and>
   \<not> search_mask (icontains ''REFUND'') m2"
  by code_simp

section \<open>Properties of the aggregations\<close>

lemma merge_left_row:
  assumes "(m, x) \<in> set (merge_left ms es)"
  shows "m \<in> set ms \<and> (\<forall>ev. x = Some ev \<longrightarrow> ev \<in> set es \<and> message_id ev = msg_id m)"
proof -
  from assms obtain m' where m': "m' \<in> set ms"
    and r: "(m, x) \<in> set (case evals_of m' es of [] \<Rightarrow> [(m', None)]
                            | e # es' \<Rightarrow> map (\<lambda>x. (m', Some x)) (e # es'))"
    by (auto simp: merge_left_def)
  show ?thesis
  proof (cases "evals_of m' es")
    case Nil
    with r m' show ?thesis by simp
  next
    case (Cons e es')
    with r have "m = m'" and "\<exists>ev \<in> set (evals_of m' es). x = Some ev"
      by auto
    with m' show ?thesis
      by (auto simp: evals_of_def)
  qed
qed

lemma series_mean_all_null: "\<forall>c \<in> set xs. c = None \<Longrightarrow> series_mean xs = NaN"
proof -
  assume "\<forall>c \<in> set xs. c = None"
  then have "non_null xs = []"
    by (induction xs) (auto simp: non_null_def)
  then show ?thesis
    by (simp add: series_mean_def)
qed

text \<open>The rows \<^verbatim>\<open>get_daily_metrics\<close> groups, and the bucket each date gets.\<close>

lemma daily_bucket:
  assumes "b \<in> set (snd (get_daily_metrics db now days sd ed))"
  shows "\<exists>merged.
      b = agg_group (date b) (filter (\<lambda>r. row_date r = date b) merged) \<and>
      (\<forall>r \<in> set merged.
         (\<exists>m \<in> set (daily_messages db now days sd ed). r = unevaluated_row m) \<or>
         (\<exists>m x. (m, x) \<in> set (merge_left (daily_messages db now days sd ed)
                                   (juju_evaluations db)) \<and> r = merged_row (m, x)))"
proof -
  let ?ms = "daily_messages db now days sd ed"
  let ?es = "in_message_id (map msg_id ?ms) (juju_evaluations db)"
  let ?merged = "if ?es \<noteq> [] then map merged_row (merge_left ?ms ?es)
                 else map unevaluated_row ?ms"
  from assms obtain d where "b = agg_group d (filter (\<lambda>r. row_date r = d) ?merged)"
    by (auto simp: get_daily_metrics_def Let_def split: if_splits)
  moreover from this have "date b = d"
    by (simp add: agg_group_def)
  moreover have "\<forall>r \<in> set ?merged.
         (\<exists>m \<in> set ?ms. r = unevaluated_row m) \<or>
         (\<exists>m x. (m, x) \<in> set (merge_left ?ms (juju_evaluations db)) \<and> r = merged_row (m, x))"
    by (auto simp: merge_left_in_message_id)
  ultimately have "b = agg_group (date b) (filter (\<lambda>r. row_date r = date b) ?merged) \<and>
      (\<forall>r \<in> set ?merged.
         (\<exists>m \<in> set ?ms. r = unevaluated_row m) \<or>
         (\<exists>m x. (m, x) \<in> set (merge_left ?ms (juju_evaluations db)) \<and> r = merged_row (m, x)))"
    by simp
  then show ?thesis by (rule exI)
qed

lemma summary_no_evaluations:
  assumes "in_message_id (map msg_id (gte_lte s e (juju_messages db))) (juju_evaluations db) = []"
  shows "avg_faithfulness (snd (get_metrics_summary float_round db now s e)) = Num 0"
  using assms
  by (simp add: get_metrics_summary_def Let_def or_zero_def truthy_def py_round_def)

text \<open>
  C1 at a store whose only evaluation has a null score: the mean over no values is NaN,
  NaN is truthy, so \<^verbatim>\<open>avg_faithfulness or 0\<close> keeps it and the summary reports NaN, not 0.
\<close>

theorem avg_faithfulness_nan_on_null_scores:
  "avg_faithfulness (snd (get_metrics_summary float_round db_null_score now None None)) = NaN"
  by (simp add: get_metrics_summary_def Let_def series_mean_def non_null_def or_zero_def
      truthy_def py_round_def query_defs example_defs)

text \<open>
  What \<^verbatim>\<open>get_metrics_summary\<close> reports when some evaluation is fetched: the rounded mean
  of the non-null scores, which is NaN when every score is null.
\<close>

lemma avg_faithfulness_with_evaluations:
  assumes "in_message_id (map msg_id (gte_lte s e (juju_messages db))) (juju_evaluations db) \<noteq> []"
  shows "avg_faithfulness (snd (get_metrics_summary float_round db now s e)) =
           py_round float_round (series_mean (map faithfulness_score
             (in_message_id (map msg_id (gte_lte s e (juju_messages db))) (juju_evaluations db)))) 3"
proof -
  have ne: "gte_lte s e (juju_messages db) \<noteq> []"
    using assms by (auto simp: in_message_id_def)
  have "or_zero x = x" for x
    by (cases x) (simp_all add: or_zero_def truthy_def)
  with assms ne show ?thesis
    by (simp add: get_metrics_summary_def Let_def)
qed

text \<open>
  C2 at a day with two messages of which one is evaluated, with a hallucination: the
  rate is 1 of 2 rows, 50, where the evaluated rows alone give 1 of 1.
\<close>

theorem daily_rate_counts_unevaluated_rows:
  "map (\<lambda>b. (date b, message_count b, day_hallucination_rate b))
     (snd (get_daily_metrics db_half_evaluated now 30 (Some 0) None)) = [(0, 2, 50)]"
  by (simp add: get_daily_metrics_def daily_messages_def agg_group_def merged_row_def
      date_of_def query_defs example_defs)

text \<open>Every bucket's rate, a share of all of its rows, lies between 0 and 100.\<close>

lemma day_hallucination_rate_bound:
  assumes "b \<in> set (snd (get_daily_metrics db now days sd ed))"
  shows "0 \<le> day_hallucination_rate b \<and> day_hallucination_rate b \<le> 100"
proof -
  from daily_bucket [OF assms] obtain merged where
    eq: "b = agg_group (date b) (filter (\<lambda>r. row_date r = date b) merged)"
    by blast
  let ?x = "filter (\<lambda>r. row_date r = date b) merged"
  have rate: "day_hallucination_rate b =
      (if length ?x > 0
       then of_nat (length (filter (\<lambda>r. row_hallucination_detected r = Some True) ?x)) /
              of_nat (length ?x) * 100
       else 0)"
    by (subst eq) (simp add: agg_group_def)
  have "length (filter (\<lambda>r. row_hallucination_detected r = Some True) ?x) \<le> length ?x"
    by (rule length_filter_le)
  then have "(of_nat (length (filter (\<lambda>r. row_hallucination_detected r = Some True) ?x)) :: real)
      \<le> of_nat (length ?x)"
    by (simp only: of_nat_le_iff)
  then show ?thesis
    by (simp only: rate) (auto simp: divide_le_eq)
qed

text \<open>
  C9. In the daily series, a bucket whose rows carry no non-null faithfulness score (no
  evaluation of that day's messages has one, or the day has no evaluation at all) has
  NaN as its average faithfulness, not 0. The metrics summary over messages none of
  which has an evaluation reports average faithfulness 0. Both hold, each for every
  store, clock and date range.
\<close>

theorem daily_null_summary_zero:
  "(\<forall>b \<in> set (snd (get_daily_metrics db now days sd ed)).
      (\<forall>m \<in> set (daily_messages db now days sd ed).
         date_of (created_at m) = date b \<longrightarrow>
         (\<forall>ev \<in> set (juju_evaluations db).
            message_id ev = msg_id m \<longrightarrow> faithfulness_score ev = None)) \<longrightarrow>
      day_avg_faithfulness b = NaN) \<and>
   ((\<forall>m \<in> set (gte_lte s e (juju_messages db')).
       \<forall>ev \<in> set (juju_evaluations db'). message_id ev \<noteq> msg_id m) \<longrightarrow>
      avg_faithfulness (snd (get_metrics_summary float_round db' now' s e)) = Num 0)"
proof (intro conjI ballI impI)
  fix b
  assume b: "b \<in> set (snd (get_daily_metrics db now days sd ed))"
    and h: "\<forall>m \<in> set (daily_messages db now days sd ed).
         date_of (created_at m) = date b \<longrightarrow>
         (\<forall>ev \<in> set (juju_evaluations db).
            message_id ev = msg_id m \<longrightarrow> faithfulness_score ev = None)"
  from daily_bucket [OF b] obtain merged where
    eq: "b = agg_group (date b) (filter (\<lambda>r. row_date r = date b) merged)" and
    rows: "\<forall>r \<in> set merged.
         (\<exists>m \<in> set (daily_messages db now days sd ed). r = unevaluated_row m) \<or>
         (\<exists>m x. (m, x) \<in> set (merge_left (daily_messages db now days sd ed)
                                   (juju_evaluations db)) \<and> r = merged_row (m, x))"
    by blast
  have null: "row_faithfulness_score r = None"
    if r: "r \<in> set merged" and d: "row_date r = date b" for r
  proof -
    from rows r consider
      m where "m \<in> set (daily_messages db now days sd ed)" "r = unevaluated_row m"
      | m x where "(m, x) \<in> set (merge_left (daily_messages db now days sd ed)
                                   (juju_evaluations db))" "r = merged_row (m, x)"
      by blast
    then show ?thesis
    proof cases
      case 1
      then show ?thesis by (simp add: unevaluated_row_def)
    next
      case 2
      note mr = merge_left_row [OF 2(1)]
      show ?thesis
      proof (cases x)
        case None
        with 2 show ?thesis by (simp add: merged_row_def)
      next
        case (Some ev)
        with mr have "ev \<in> set (juju_evaluations db)" "message_id ev = msg_id m"
          "m \<in> set (daily_messages db now days sd ed)"
          by auto
        moreover from d 2 have "date_of (created_at m) = date b"
          by (simp add: merged_row_def)
        ultimately have "faithfulness_score ev = None"
          using h by blast
        with 2 Some show ?thesis by (simp add: merged_row_def)
      qed
    qed
  qed
  have "day_avg_faithfulness b =
      series_mean (map row_faithfulness_score (filter (\<lambda>r. row_date r = date b) merged))"
    by (subst eq) (simp add: agg_group_def)
  also have "\<dots> = NaN"
    by (rule series_mean_all_null) (auto simp: null)
  finally show "day_avg_faithfulness b = NaN" .
next
  assume "\<forall>m \<in> set (gte_lte s e (juju_messages db')).
       \<forall>ev \<in> set (juju_evaluations db'). message_id ev \<noteq> msg_id m"
  then have "in_message_id (map msg_id (gte_lte s e (juju_messages db'))) (juju_evaluations db') = []"
    by (auto simp: in_message_id_def filter_empty_conv)
  then show "avg_faithfulness (snd (get_metrics_summary float_round db' now' s e)) = Num 0"
    by (rule summary_no_evaluations)
qed

theorem daily_null_summary_zero_witness:
  "map date (snd (get_daily_metrics db_null_score 5000 30 (Some 0) None)) = [0] \<and>
   map day_avg_faithfulness (snd (get_daily_metrics db_null_score 5000 30 (Some 0) None)) = [NaN] \<and>
   juju_evaluations db_no_evals = [] \<and>
   avg_faithfulness (snd (get_metrics_summary exact_round db_no_evals 5000 None None)) = Num 0"
proof -
  let ?L = "snd (get_daily_metrics db_null_score 5000 30 (Some 0) None)"
  note t = daily_null_summary_zero [of db_null_score 5000 30 "Some 0" None None None
      db_no_evals exact_round 5000]
  have dates: "map date ?L = [0]"
    by (simp add: get_daily_metrics_def daily_messages_def agg_group_def merged_row_def
        date_of_def query_defs example_defs)
  have ms: "daily_messages db_null_score 5000 30 (Some 0) None = [m1]"
    by (simp add: daily_messages_def query_defs example_defs)
  have hyp: "\<forall>m \<in> set (daily_messages db_null_score 5000 30 (Some 0) None).
      date_of (created_at m) = d \<longrightarrow>
      (\<forall>ev \<in> set (juju_evaluations db_null_score).
         message_id ev = msg_id m \<longrightarrow> faithfulness_score ev = None)" for d
    by (simp add: ms) (simp add: example_defs)
  from t [THEN conjunct1] hyp have "\<forall>b \<in> set ?L. day_avg_faithfulness b = NaN"
    by blast
  then have "map day_avg_faithfulness ?L = map (\<lambda>b. NaN) ?L"
    by simp
  also have "\<dots> = map (\<lambda>d. NaN) (map date ?L)"
    by simp
  also have "\<dots> = [NaN]"
    by (simp only: dates) simp
  finally have avg: "map day_avg_faithfulness ?L = [NaN]" .
  have none: "juju_evaluations db_no_evals = []"
    by (simp add: example_defs)
  then have "avg_faithfulness (snd (get_metrics_summary exact_round db_no_evals 5000 None None)) = Num 0"
    using t [THEN conjunct2] by simp
  with dates avg none show ?thesis by (intro conjI)
qed

end
